theory Spec2Isabelle
  imports Main
begin

section \<open>Python values used by the dependency\<close>

subsection \<open>Timestamps\<close>

text \<open>
  The \<^verbatim>\<open>tzinfo\<close> attached to a timestamp: which object it is (\<open>tz_id\<close>; Python
  tests \<^verbatim>\<open>mytz is ottz\<close>), and the offset from UTC, in whole seconds east, that
  the object reports for this timestamp. One zone object reports different offsets for
  different timestamps when the zone has daylight saving time.
\<close>

record tz =
  tz_id :: nat
  tz_offset :: int

text \<open>
  A Python \<^verbatim>\<open>datetime\<close>: the calendar fields and the \<^verbatim>\<open>tzinfo\<close>.
  \<open>tzinfo = None\<close> is a naive timestamp, \<open>Some z\<close> an aware one. A \<^verbatim>\<open>tzinfo\<close>
  object whose \<^verbatim>\<open>utcoffset()\<close> is always \<^verbatim>\<open>None\<close> behaves as a naive timestamp
  does in every comparison; one that reports an offset for some timestamps and none for
  others is outside the model. The constructor of \<^verbatim>\<open>datetime\<close> keeps the fields in
  range (month 1..12, hour 0..23 and so on); the record does not enforce it, and no
  general theorem below depends on it.
\<close>

record datetime =
  year :: nat
  month :: nat
  day :: nat
  hour :: nat
  minute :: nat
  second :: nat
  microsecond :: nat
  tzinfo :: "tz option"

text \<open>\<^verbatim>\<open>datetime.utcoffset()\<close>.\<close>

definition utcoffset :: "datetime \<Rightarrow> int option" where
  "utcoffset t = map_option tz_offset (tzinfo t)"

text \<open>The only exception the body of the dependency can raise by itself.\<close>

datatype error = TypeError

text \<open>
  The proleptic Gregorian ordinal of a date, as \<^verbatim>\<open>datetime._ymd2ord\<close> computes it
  (1 January of year 1 is day 1).
\<close>

definition is_leap :: "nat \<Rightarrow> bool" where
  "is_leap y = (if y mod 400 = 0 then True else if y mod 100 = 0 then False else y mod 4 = 0)"

definition days_before_year :: "nat \<Rightarrow> int" where
  "days_before_year y =
     (let p = int y - 1 in p * 365 + p div 4 - p div 100 + p div 400)"

definition days_before_month :: "nat \<Rightarrow> nat \<Rightarrow> int" where
  "days_before_month y m =
     (if 1 \<le> m \<and> m \<le> 12
      then [0, 31, 59, 90, 120, 151, 181, 212, 243, 273, 304, 334] ! (m - 1)
           + (if 2 < m \<and> is_leap y then 1 else 0)
      else 0)"

definition ymd2ord :: "nat \<Rightarrow> nat \<Rightarrow> nat \<Rightarrow> int" where
  "ymd2ord y m d = days_before_year y + days_before_month y m + int d"

text \<open>Microseconds of the wall-clock reading since the start of day 0.\<close>

definition wall_us :: "datetime \<Rightarrow> int" where
  "wall_us t =
     (((ymd2ord (year t) (month t) (day t) * 24 + int (hour t)) * 60 + int (minute t)) * 60
        + int (second t)) * 1000000 + int (microsecond t)"

text \<open>
  The fields as the tuple that \<^verbatim>\<open>datetime._cmp\<close> compares, and Python's order on
  tuples: the first position that differs decides.
\<close>

definition fields :: "datetime \<Rightarrow> nat list" where
  "fields t = [year t, month t, day t, hour t, minute t, second t, microsecond t]"

fun tuple_gt :: "nat list \<Rightarrow> nat list \<Rightarrow> bool" where
  "tuple_gt (x # xs) (y # ys) = (if x = y then tuple_gt xs ys else y < x)"
| "tuple_gt (x # xs) [] = True"
| "tuple_gt [] ys = False"

text \<open>\<^verbatim>\<open>mytz is ottz\<close>: both timestamps naive, or both carrying the same object.\<close>

definition same_tzinfo :: "datetime \<Rightarrow> datetime \<Rightarrow> bool" where
  "same_tzinfo a b = (map_option tz_id (tzinfo a) = map_option tz_id (tzinfo b))"

text \<open>
  \<^verbatim>\<open>a > b\<close> on two timestamps, after \<^verbatim>\<open>datetime._cmp\<close>. When both carry the
  same \<^verbatim>\<open>tzinfo\<close> object (or none), or report the same offset, the fields are
  compared and the offsets play no part. Otherwise a naive timestamp against an aware one
  raises \<^verbatim>\<open>TypeError\<close> ("can't compare offset-naive and offset-aware datetimes"), and
  two aware ones compare by the sign of \<^verbatim>\<open>a - b\<close>, the difference of the instants
  they denote.
\<close>

definition dt_gt :: "datetime \<Rightarrow> datetime \<Rightarrow> error + bool" where
  "dt_gt a b =
     (if same_tzinfo a b \<or> utcoffset a = utcoffset b
      then Inr (tuple_gt (fields a) (fields b))
      else (case utcoffset a of
              None \<Rightarrow> Inl TypeError
            | Some oa \<Rightarrow>
                (case utcoffset b of
                   None \<Rightarrow> Inl TypeError
                 | Some ob \<Rightarrow>
                     Inr (0 < (wall_us a - oa * 1000000) - (wall_us b - ob * 1000000)))))"

subsection \<open>Rendering: \<^verbatim>\<open>datetime.isoformat()\<close>\<close>

fun dec :: "nat \<Rightarrow> string" where
  "dec n = (if n < 10 then [''0123456789'' ! n]
            else dec (n div 10) @ [''0123456789'' ! (n mod 10)])"

declare dec.simps [simp del]

text \<open>\<^verbatim>\<open>"%0wd" % n\<close>: at least \<open>w\<close> digits, padded with zeros on the left.\<close>

definition zpad :: "nat \<Rightarrow> nat \<Rightarrow> string" where
  "zpad w n = replicate (w - length (dec n)) (CHR ''0'') @ dec n"

text \<open>
  The offset suffix: nothing for a naive timestamp, else \<^verbatim>\<open>+HH:MM\<close> or
  \<^verbatim>\<open>-HH:MM\<close>, with \<^verbatim>\<open>:SS\<close> appended when the offset has odd seconds.
\<close>

definition format_offset :: "int option \<Rightarrow> string" where
  "format_offset off =
     (case off of
        None \<Rightarrow> ''''
      | Some s \<Rightarrow>
          (let a = nat \<bar>s\<bar>;
               hh = a div 3600;
               mm = (a mod 3600) div 60;
               ss = a mod 60
           in (if s < 0 then ''-'' else ''+'') @ zpad 2 hh @ '':'' @ zpad 2 mm
              @ (if ss = 0 then '''' else '':'' @ zpad 2 ss)))"

definition isoformat :: "datetime \<Rightarrow> string" where
  "isoformat t =
     zpad 4 (year t) @ ''-'' @ zpad 2 (month t) @ ''-'' @ zpad 2 (day t) @ ''T''
     @ zpad 2 (hour t) @ '':'' @ zpad 2 (minute t) @ '':'' @ zpad 2 (second t)
     @ (if microsecond t = 0 then '''' else ''.'' @ zpad 6 (microsecond t))
     @ format_offset (utcoffset t)"

subsection \<open>Generators\<close>

text \<open>
  What a consumer that exhausts a generator observes: the values yielded, in order, and
  the exception that ended the iteration, if one did. Values yielded before an
  exception have already reached the consumer.
\<close>

type_synonym 'a gen = "'a list \<times> error option"

definition gen_empty :: "'a gen" where
  "gen_empty = ([], None)"

definition gen_yield :: "'a \<Rightarrow> 'a gen" where
  "gen_yield x = ([x], None)"

definition gen_raise :: "error \<Rightarrow> 'a gen" where
  "gen_raise e = ([], Some e)"

text \<open>One statement after another: the second runs only when the first did not raise.\<close>

definition gen_seq :: "'a gen \<Rightarrow> 'a gen \<Rightarrow> 'a gen" where
  "gen_seq g h = (case snd g of
                    Some e \<Rightarrow> g
                  | None \<Rightarrow> (fst g @ fst h, snd h))"

text \<open>\<^verbatim>\<open>if c: body\<close> where evaluating the condition may raise.\<close>

definition gen_if :: "error + bool \<Rightarrow> 'a gen \<Rightarrow> 'a gen" where
  "gen_if c body = (case c of
                      Inl e \<Rightarrow> gen_raise e
                    | Inr b \<Rightarrow> if b then body else gen_empty)"

section \<open>The data the dependency reads\<close>

text \<open>
  Only the attributes that \<^verbatim>\<open>_get_dep_statuses\<close> reads, and the identifiers of each
  object. \<open>dag_run\<close> is the run that \<^verbatim>\<open>ti.get_dagrun(session)\<close> returns; the lookup
  itself belongs to the model layer.
\<close>

record DAG =
  dag_id :: string
  dag_end_date :: "datetime option"

record BaseOperator =
  task_id :: string
  end_date :: "datetime option"
  dag :: "DAG option"

record DagRun =
  run_id :: string
  logical_date :: "datetime option"

record TaskInstance =
  map_index :: int
  task :: BaseOperator
  dag_run :: DagRun

text \<open>
  Modelled from the spec: \<^verbatim>\<open>BaseTIDep._failing_status\<close> and the status type it
  builds are not among the sources. The specification gives the status as an immutable
  value with a boolean \<open>passed\<close> and a text \<open>reason\<close>; a failing status has
  \<open>passed = False\<close>.
\<close>

record TIDepStatus =
  passed :: bool
  reason :: string

definition failing_status :: "string \<Rightarrow> TIDepStatus" where
  "failing_status r = \<lparr>passed = False, reason = r\<rparr>"

text \<open>
  Modelled from the spec: \<^verbatim>\<open>is_met\<close> of the base class is not among the sources.
  For one dependency and no override, the specification makes it true exactly when no
  failing status is yielded; an exception of the dependency passes through.
\<close>

definition is_met :: "TIDepStatus gen \<Rightarrow> error + bool" where
  "is_met g = (case snd g of
                 Some e \<Rightarrow> Inl e
               | None \<Rightarrow> Inr (list_all passed (fst g)))"

section \<open>\<^verbatim>\<open>RunnableExecDateDep\<close>\<close>

definition NAME :: string where
  "NAME = ''Logical Date''"

definition IGNORABLE :: bool where
  "IGNORABLE = True"

text \<open>The three reason texts, as the f-strings of the method build them.\<close>

definition future_reason :: "datetime \<Rightarrow> datetime \<Rightarrow> string" where
  "future_reason ld cur_date =
     ''Logical date '' @ isoformat ld @ '' is in the future ''
     @ ''(the current date is '' @ isoformat cur_date @ '').''"

definition task_end_reason :: "datetime \<Rightarrow> datetime \<Rightarrow> string" where
  "task_end_reason ld ed =
     ''The logical date is '' @ isoformat ld @ '' but this is ''
     @ ''after the task's end date '' @ isoformat ed @ ''.''"

definition dag_end_reason :: "datetime \<Rightarrow> datetime \<Rightarrow> string" where
  "dag_end_reason ld ed =
     ''The logical date is '' @ isoformat ld @ '' but this is after ''
     @ ''the task's DAG's end date '' @ isoformat ed @ ''.''"

text \<open>
  \<^verbatim>\<open>_get_dep_statuses(self, ti, session, dep_context)\<close>. The reading of the clock,
  \<^verbatim>\<open>timezone.utcnow()\<close>, is the argument \<open>utcnow\<close>. A Python \<^verbatim>\<open>datetime\<close> and
  a DAG object are always truthy, so \<^verbatim>\<open>x and ...\<close> on an optional attribute is a case
  distinction on its presence.
\<close>

definition get_dep_statuses :: "TaskInstance \<Rightarrow> 'ctx \<Rightarrow> datetime \<Rightarrow> TIDepStatus gen" where
  "get_dep_statuses ti dep_context utcnow =
     (case logical_date (dag_run ti) of
        None \<Rightarrow> gen_empty
      | Some ld \<Rightarrow>
          (let cur_date = utcnow in
           gen_seq
             (gen_if (dt_gt ld cur_date)
                (gen_yield (failing_status (future_reason ld cur_date))))
          (gen_seq
             (case end_date (task ti) of
                None \<Rightarrow> gen_empty
              | Some ed \<Rightarrow>
                  gen_if (dt_gt ld ed)
                    (gen_yield (failing_status (task_end_reason ld ed))))
             (case dag (task ti) of
                None \<Rightarrow> gen_empty
              | Some d \<Rightarrow>
                  (case dag_end_date d of
                     None \<Rightarrow> gen_empty
                   | Some ed \<Rightarrow>
                       gen_if (dt_gt ld ed)
                         (gen_yield (failing_status (dag_end_reason ld ed))))))))"

section \<open>Vocabulary of the specification\<close>

text \<open>
  The end-of-validity timestamp of the owning workflow definition: present when the
  task has a DAG and that DAG has an end date.
\<close>

definition workflow_end_date :: "TaskInstance \<Rightarrow> datetime option" where
  "workflow_end_date ti = (case dag (task ti) of None \<Rightarrow> None | Some d \<Rightarrow> dag_end_date d)"

text \<open>A naive timestamp meets an aware one: the comparison that Python refuses.\<close>

definition naive_vs_aware :: "datetime \<Rightarrow> datetime \<Rightarrow> bool" where
  "naive_vs_aware a b = ((utcoffset a = None) \<noteq> (utcoffset b = None))"

definition task_end_mismatch :: "TaskInstance \<Rightarrow> datetime \<Rightarrow> bool" where
  "task_end_mismatch ti L =
     (case end_date (task ti) of None \<Rightarrow> False | Some ed \<Rightarrow> naive_vs_aware L ed)"

definition dag_end_mismatch :: "TaskInstance \<Rightarrow> datetime \<Rightarrow> bool" where
  "dag_end_mismatch ti L =
     (case workflow_end_date ti of None \<Rightarrow> False | Some ed \<Rightarrow> naive_vs_aware L ed)"

text \<open>The three conditions of the specification, each true only when its comparison is.\<close>

definition in_future :: "datetime \<Rightarrow> datetime \<Rightarrow> bool" where
  "in_future L C = (dt_gt L C = Inr True)"

definition task_end_exceeded :: "TaskInstance \<Rightarrow> datetime \<Rightarrow> bool" where
  "task_end_exceeded ti L =
     (case end_date (task ti) of None \<Rightarrow> False | Some ed \<Rightarrow> dt_gt L ed = Inr True)"

definition dag_end_exceeded :: "TaskInstance \<Rightarrow> datetime \<Rightarrow> bool" where
  "dag_end_exceeded ti L =
     (case workflow_end_date ti of None \<Rightarrow> False | Some ed \<Rightarrow> dt_gt L ed = Inr True)"

text \<open>What each check contributes to the output: one failing status, or nothing.\<close>

definition future_part :: "datetime \<Rightarrow> datetime \<Rightarrow> TIDepStatus list" where
  "future_part L C =
     (if in_future L C then [\<lparr>passed = False, reason = future_reason L C\<rparr>] else [])"

definition task_end_part :: "TaskInstance \<Rightarrow> datetime \<Rightarrow> TIDepStatus list" where
  "task_end_part ti L =
     (case end_date (task ti) of
        None \<Rightarrow> []
      | Some ed \<Rightarrow>
          if dt_gt L ed = Inr True then [\<lparr>passed = False, reason = task_end_reason L ed\<rparr>]
          else [])"

definition dag_end_part :: "TaskInstance \<Rightarrow> datetime \<Rightarrow> TIDepStatus list" where
  "dag_end_part ti L =
     (case workflow_end_date ti of
        None \<Rightarrow> []
      | Some ed \<Rightarrow>
          if dt_gt L ed = Inr True then [\<lparr>passed = False, reason = dag_end_reason L ed\<rparr>]
          else [])"

text \<open>
  The wording of the three reasons as the specification quotes them, and the test that
  a reason carries one of these sentences as a contiguous piece of its text.
\<close>

definition spec_future_wording :: "datetime \<Rightarrow> string" where
  "spec_future_wording C =
     ''logical date is in the future (current date is '' @ isoformat C @ '').''"

definition spec_task_end_wording :: string where
  "spec_task_end_wording = ''logical date is after the task's end date.''"

definition spec_dag_end_wording :: string where
  "spec_dag_end_wording = ''logical date is after the workflow's end date.''"

fun starts_with :: "string \<Rightarrow> string \<Rightarrow> bool" where
  "starts_with [] s = True"
| "starts_with (p # ps) [] = False"
| "starts_with (p # ps) (c # cs) = (p = c \<and> starts_with ps cs)"

fun contains_text :: "string \<Rightarrow> string \<Rightarrow> bool" where
  "contains_text p [] = starts_with p []"
| "contains_text p (c # cs) = (starts_with p (c # cs) \<or> contains_text p cs)"

definition spec_wording_matches :: "datetime \<Rightarrow> string \<Rightarrow> bool" where
  "spec_wording_matches C r =
     (contains_text (spec_future_wording C) r
      \<or> contains_text spec_task_end_wording r
      \<or> contains_text spec_dag_end_wording r)"

subsection \<open>Concrete inputs\<close>

text \<open>The UTC zone object, and midnight at the start of a day, in UTC or naive.\<close>

definition utc :: tz where
  "utc = \<lparr>tz_id = 0, tz_offset = 0\<rparr>"

definition midnight :: "nat \<Rightarrow> nat \<Rightarrow> nat \<Rightarrow> tz option \<Rightarrow> datetime" where
  "midnight y m d z =
     \<lparr>year = y, month = m, day = d, hour = 0, minute = 0, second = 0, microsecond = 0,
      tzinfo = z\<rparr>"

definition utc_date :: "nat \<Rightarrow> nat \<Rightarrow> nat \<Rightarrow> datetime" where
  "utc_date y m d = midnight y m d (Some utc)"

definition naive_date :: "nat \<Rightarrow> nat \<Rightarrow> nat \<Rightarrow> datetime" where
  "naive_date y m d = midnight y m d None"

definition mk_ti :: "datetime option \<Rightarrow> datetime option \<Rightarrow> DAG option \<Rightarrow> TaskInstance" where
  "mk_ti ld ed d =
     \<lparr>map_index = - 1,
      task = \<lparr>task_id = ''op'', end_date = ed, dag = d\<rparr>,
      dag_run = \<lparr>run_id = ''scheduled__run'', logical_date = ld\<rparr>\<rparr>"

definition mk_dag :: "datetime option \<Rightarrow> DAG" where
  "mk_dag ed = \<lparr>dag_id = ''example'', dag_end_date = ed\<rparr>"

text \<open>
  A run dated 2023-01-01 whose task ended on 2022-01-01 and whose DAG ended on
  2021-01-01, all in UTC: read on 2022-06-01, all three checks fire.
\<close>

definition ti_all_late :: TaskInstance where
  "ti_all_late =
     mk_ti (Some (utc_date 2023 1 1)) (Some (utc_date 2022 1 1))
       (Some (mk_dag (Some (utc_date 2021 1 1))))"

text \<open>The same run, with a task end date that carries no time zone.\<close>

definition ti_naive_task_end :: TaskInstance where
  "ti_naive_task_end =
     mk_ti (Some (utc_date 2023 1 1)) (Some (naive_date 2022 1 1))
       (Some (mk_dag (Some (utc_date 2021 1 1))))"

text \<open>
  A run whose logical date and task end date both carry no time zone, on a task without
  a DAG.
\<close>

definition ti_naive_logical_date :: TaskInstance where
  "ti_naive_logical_date =
     mk_ti (Some (naive_date 2023 1 1)) (Some (naive_date 2022 1 1)) None"

text \<open>
  Two readings in one zone object with daylight saving time, on the night the clocks go
  back: 01:15 standard time (five hours behind UTC) is the later instant, 01:45 summer
  time (four hours behind) the later wall-clock reading.
\<close>

definition fold_0115_standard :: datetime where
  "fold_0115_standard =
     \<lparr>year = 2023, month = 11, day = 5, hour = 1, minute = 15, second = 0, microsecond = 0,
      tzinfo = Some \<lparr>tz_id = 1, tz_offset = - 18000\<rparr>\<rparr>"

definition fold_0145_summer :: datetime where
  "fold_0145_summer =
     \<lparr>year = 2023, month = 11, day = 5, hour = 1, minute = 45, second = 0, microsecond = 0,
      tzinfo = Some \<lparr>tz_id = 1, tz_offset = - 14400\<rparr>\<rparr>"


section \<open>Auxiliary facts\<close>

lemmas gen_defs = gen_seq_def gen_if_def gen_empty_def gen_yield_def gen_raise_def
lemmas cond_defs = in_future_def task_end_exceeded_def dag_end_exceeded_def
  task_end_mismatch_def dag_end_mismatch_def workflow_end_date_def
lemmas part_defs = future_part_def task_end_part_def dag_end_part_def
lemmas input_defs = mk_ti_def mk_dag_def ti_all_late_def ti_naive_task_end_def
  ti_naive_logical_date_def

lemma error_is_TypeError: "(e::error) = TypeError"
  by (cases e) simp

lemma naive_vs_aware_dt_gt: "naive_vs_aware a b = (dt_gt a b = Inl TypeError)"
  by (cases "tzinfo a"; cases "tzinfo b")
     (auto simp: dt_gt_def naive_vs_aware_def same_tzinfo_def utcoffset_def)

lemma reasons_distinct:
  "future_reason L C \<noteq> task_end_reason L' e" "future_reason L C \<noteq> dag_end_reason L' e"
  "task_end_reason L e \<noteq> dag_end_reason L e'"
  "task_end_reason L' e \<noteq> future_reason L C" "dag_end_reason L' e \<noteq> future_reason L C"
  "dag_end_reason L e' \<noteq> task_end_reason L e"
  by (simp_all add: future_reason_def task_end_reason_def dag_end_reason_def)

text \<open>
  The whole behaviour of one call on a run that has a logical date: the checks run in
  order, and the first comparison of a naive with an aware timestamp ends the call.
\<close>

lemma run_normal_form:
  assumes "logical_date (dag_run ti) = Some L"
  shows "get_dep_statuses ti ctx C =
     (if naive_vs_aware L C then ([], Some TypeError)
      else if task_end_mismatch ti L then (future_part L C, Some TypeError)
      else if dag_end_mismatch ti L then (future_part L C @ task_end_part ti L, Some TypeError)
      else (future_part L C @ task_end_part ti L @ dag_end_part ti L, None))"
  using assms
  by (auto simp: get_dep_statuses_def gen_defs cond_defs part_defs failing_status_def
        naive_vs_aware_dt_gt error_is_TypeError split: option.splits sum.splits)

lemma in_future_part:
  "s \<in> set (future_part L C)
     \<longleftrightarrow> dt_gt L C = Inr True \<and> s = \<lparr>passed = False, reason = future_reason L C\<rparr>"
  by (auto simp: part_defs cond_defs)

lemma in_task_end_part:
  "s \<in> set (task_end_part ti L)
     \<longleftrightarrow> (\<exists>ed. end_date (task ti) = Some ed \<and> dt_gt L ed = Inr True
               \<and> s = \<lparr>passed = False, reason = task_end_reason L ed\<rparr>)"
  by (cases "end_date (task ti)") (auto simp: part_defs)

lemma in_dag_end_part:
  "s \<in> set (dag_end_part ti L)
     \<longleftrightarrow> (\<exists>ed. workflow_end_date ti = Some ed \<and> dt_gt L ed = Inr True
               \<and> s = \<lparr>passed = False, reason = dag_end_reason L ed\<rparr>)"
  by (cases "workflow_end_date ti") (auto simp: part_defs)

lemmas in_parts = in_future_part in_task_end_part in_dag_end_part

lemma part_empty_iff:
  "future_part L C = [] \<longleftrightarrow> \<not> in_future L C"
  "task_end_part ti L = [] \<longleftrightarrow> \<not> task_end_exceeded ti L"
  "dag_end_part ti L = [] \<longleftrightarrow> \<not> dag_end_exceeded ti L"
  by (auto simp: part_defs cond_defs split: option.splits)

lemma part_lengths:
  "length (future_part L C) = (if in_future L C then 1 else 0)"
  "length (task_end_part ti L) = (if task_end_exceeded ti L then 1 else 0)"
  "length (dag_end_part ti L) = (if dag_end_exceeded ti L then 1 else 0)"
  by (auto simp: part_defs cond_defs split: option.splits)

lemma parts_failing:
  "s \<in> set (future_part L C) \<Longrightarrow> \<not> passed s"
  "s \<in> set (task_end_part ti L) \<Longrightarrow> \<not> passed s"
  "s \<in> set (dag_end_part ti L) \<Longrightarrow> \<not> passed s"
  by (auto simp: in_parts)

lemma workflow_end_date_Some:
  "(\<exists>d. dag (task ti) = Some d \<and> dag_end_date d = Some ed) = (workflow_end_date ti = Some ed)"
  by (auto simp: workflow_end_date_def split: option.splits)

subsection \<open>The concrete timestamps, evaluated\<close>

lemma iso_values:
  "isoformat (utc_date 2023 1 1) = ''2023-01-01T00:00:00+00:00''"
  "isoformat (utc_date 2022 6 1) = ''2022-06-01T00:00:00+00:00''"
  "isoformat (utc_date 2022 1 1) = ''2022-01-01T00:00:00+00:00''"
  "isoformat (utc_date 2021 1 1) = ''2021-01-01T00:00:00+00:00''"
  by code_simp+

lemma dt_gt_values:
  "dt_gt (utc_date 2023 1 1) (utc_date 2022 6 1) = Inr True"
  "dt_gt (utc_date 2023 1 1) (utc_date 2023 6 1) = Inr False"
  "dt_gt (utc_date 2023 1 1) (utc_date 2022 1 1) = Inr True"
  "dt_gt (utc_date 2023 1 1) (utc_date 2021 1 1) = Inr True"
  "dt_gt (utc_date 2023 1 1) (naive_date 2022 1 1) = Inl TypeError"
  "dt_gt (naive_date 2023 1 1) (naive_date 2022 1 1) = Inr True"
  "dt_gt (naive_date 2023 1 1) (utc_date 2023 6 1) = Inl TypeError"
  by code_simp+

text \<open>Within one zone object the wall-clock fields decide, not the instants.\<close>

lemma dt_gt_same_zone_values:
  "dt_gt fold_0115_standard fold_0145_summer = Inr False"
  "dt_gt fold_0145_summer fold_0115_standard = Inr True"
  by code_simp+

lemma aware_values:
  "\<not> naive_vs_aware (utc_date y m d) (utc_date y' m' d')"
  "naive_vs_aware (utc_date y m d) (naive_date y' m' d')"
  "naive_vs_aware (naive_date y m d) (utc_date y' m' d')"
  "\<not> naive_vs_aware (naive_date y m d) (naive_date y' m' d')"
  by (simp_all add: naive_vs_aware_def utcoffset_def utc_date_def naive_date_def midnight_def)

lemma ti_all_late_fields:
  "logical_date (dag_run ti_all_late) = Some (utc_date 2023 1 1)"
  "end_date (task ti_all_late) = Some (utc_date 2022 1 1)"
  "dag (task ti_all_late) = Some (mk_dag (Some (utc_date 2021 1 1)))"
  "dag_end_date (mk_dag x) = x"
  "workflow_end_date ti_all_late = Some (utc_date 2021 1 1)"
  by (simp_all add: input_defs workflow_end_date_def)

lemma ti_naive_task_end_fields:
  "logical_date (dag_run ti_naive_task_end) = Some (utc_date 2023 1 1)"
  "end_date (task ti_naive_task_end) = Some (naive_date 2022 1 1)"
  "workflow_end_date ti_naive_task_end = Some (utc_date 2021 1 1)"
  "dag (task ti_naive_task_end) = Some (mk_dag (Some (utc_date 2021 1 1)))"
  by (simp_all add: input_defs workflow_end_date_def)

lemma ti_naive_logical_date_fields:
  "logical_date (dag_run ti_naive_logical_date) = Some (naive_date 2023 1 1)"
  "end_date (task ti_naive_logical_date) = Some (naive_date 2022 1 1)"
  "dag (task ti_naive_logical_date) = None"
  "workflow_end_date ti_naive_logical_date = None"
  by (simp_all add: input_defs workflow_end_date_def)

lemma mk_ti_fields:
  "logical_date (dag_run (mk_ti ld ed d)) = ld"
  "end_date (task (mk_ti ld ed d)) = ed"
  "dag (task (mk_ti ld ed d)) = d"
  "workflow_end_date (mk_ti ld ed None) = None"
  "workflow_end_date (mk_ti ld ed (Some (mk_dag x))) = x"
  by (simp_all add: input_defs workflow_end_date_def)

subsection \<open>Two calls that end with an exception\<close>

lemma run_ti_naive_task_end:
  "get_dep_statuses ti_naive_task_end ctx (utc_date 2022 6 1)
     = ([\<lparr>passed = False,
          reason = ''Logical date 2023-01-01T00:00:00+00:00 is in the future (the current date is 2022-06-01T00:00:00+00:00).''\<rparr>],
        Some TypeError)"
proof -
  have t: "task_end_mismatch ti_naive_task_end (utc_date 2023 1 1)"
    unfolding task_end_mismatch_def ti_naive_task_end_fields option.case
    by (rule aware_values(2))
  have f: "future_part (utc_date 2023 1 1) (utc_date 2022 6 1)
             = [\<lparr>passed = False,
            reason = ''Logical date 2023-01-01T00:00:00+00:00 is in the future (the current date is 2022-06-01T00:00:00+00:00).''\<rparr>]"
    unfolding future_part_def in_future_def dt_gt_values future_reason_def iso_values by simp
  show ?thesis
    unfolding run_normal_form[OF ti_naive_task_end_fields(1)] f
    using t aware_values(1)[of 2023 1 1 2022 6 1] by simp
qed

lemma run_ti_naive_logical_date:
  "get_dep_statuses ti_naive_logical_date ctx (utc_date 2023 6 1) = ([], Some TypeError)"
  unfolding run_normal_form[OF ti_naive_logical_date_fields(1)]
  using aware_values(3)[of 2023 1 1 2023 6 1] by simp

section \<open>The claims\<close>

text \<open>
  Claim C1. On a run with logical date \<open>L\<close> and a clock reading \<open>C\<close>, the failing status
  that cites both timestamps in ISO-8601 form is among the statuses yielded exactly when
  \<open>L > C\<close>. When \<open>L > C\<close> and neither end-of-validity condition holds, it is the only
  status produced.
\<close>

theorem future_status_iff:
  assumes "logical_date (dag_run ti) = Some L"
  shows "(\<lparr>passed = False,
           reason = ''Logical date '' @ isoformat L @ '' is in the future (the current date is ''
                    @ isoformat C @ '').''\<rparr>
            \<in> set (fst (get_dep_statuses ti ctx C))) = (dt_gt L C = Inr True)
         \<and> (dt_gt L C = Inr True \<and> \<not> task_end_exceeded ti L \<and> \<not> dag_end_exceeded ti L
            \<longrightarrow> fst (get_dep_statuses ti ctx C) =
                 [\<lparr>passed = False,
                   reason = ''Logical date '' @ isoformat L
                            @ '' is in the future (the current date is '' @ isoformat C
                            @ '').''\<rparr>])"
proof -
  have r: "''Logical date '' @ isoformat L @ '' is in the future (the current date is ''
             @ isoformat C @ '').'' = future_reason L C"
    by (simp add: future_reason_def)
  have one: "(\<lparr>passed = False, reason = future_reason L C\<rparr>
                \<in> set (fst (get_dep_statuses ti ctx C))) = (dt_gt L C = Inr True)"
    unfolding run_normal_form[OF assms]
    by (auto simp: in_parts reasons_distinct naive_vs_aware_dt_gt)
  have two: "fst (get_dep_statuses ti ctx C) = [\<lparr>passed = False, reason = future_reason L C\<rparr>]"
    if "dt_gt L C = Inr True" "\<not> task_end_exceeded ti L" "\<not> dag_end_exceeded ti L"
    unfolding run_normal_form[OF assms] using that part_empty_iff(2,3)[of ti L]
    by (simp add: naive_vs_aware_dt_gt future_part_def in_future_def)
  show ?thesis unfolding r using one two by blast
qed

theorem future_status_iff_witness:
  "logical_date (dag_run (mk_ti (Some (utc_date 2023 1 1)) None None)) = Some (utc_date 2023 1 1)
   \<and> dt_gt (utc_date 2023 1 1) (utc_date 2022 6 1) = Inr True
   \<and> \<not> task_end_exceeded (mk_ti (Some (utc_date 2023 1 1)) None None) (utc_date 2023 1 1)
   \<and> \<not> dag_end_exceeded (mk_ti (Some (utc_date 2023 1 1)) None None) (utc_date 2023 1 1)
   \<and> fst (get_dep_statuses (mk_ti (Some (utc_date 2023 1 1)) None None) () (utc_date 2022 6 1))
       = [\<lparr>passed = False,
           reason = ''Logical date 2023-01-01T00:00:00+00:00 is in the future (the current date is 2022-06-01T00:00:00+00:00).''\<rparr>]"
proof -
  have h: "logical_date (dag_run (mk_ti (Some (utc_date 2023 1 1)) None None))
             = Some (utc_date 2023 1 1)"
    by (simp only: mk_ti_fields)
  have t: "\<not> task_end_exceeded (mk_ti (Some (utc_date 2023 1 1)) None None) (utc_date 2023 1 1)"
    by (simp add: task_end_exceeded_def mk_ti_fields)
  have d: "\<not> dag_end_exceeded (mk_ti (Some (utc_date 2023 1 1)) None None) (utc_date 2023 1 1)"
    by (simp add: dag_end_exceeded_def mk_ti_fields)
  from future_status_iff [OF h, of "utc_date 2022 6 1" "()"] dt_gt_values(1) t d
  have "fst (get_dep_statuses (mk_ti (Some (utc_date 2023 1 1)) None None) () (utc_date 2022 6 1))
       = [\<lparr>passed = False,
           reason = ''Logical date '' @ isoformat (utc_date 2023 1 1)
               @ '' is in the future (the current date is '' @ isoformat (utc_date 2022 6 1)
               @ '').''\<rparr>]"
    by blast
  then show ?thesis
    unfolding iso_values using h dt_gt_values(1) t d by simp
qed

text \<open>
  Claim C2. A run without a logical date yields no status and raises nothing, whatever
  the clock reads and whatever end dates the task and its DAG carry; the dependency is
  met.
\<close>

theorem no_logical_date_no_status:
  assumes "logical_date (dag_run ti) = None"
  shows "get_dep_statuses ti ctx C = ([], None)
         \<and> is_met (get_dep_statuses ti ctx C) = Inr True"
  using assms by (simp add: get_dep_statuses_def gen_empty_def is_met_def)

theorem no_logical_date_no_status_witness:
  "logical_date (dag_run (mk_ti None (Some (naive_date 2022 1 1))
                            (Some (mk_dag (Some (utc_date 2021 1 1)))))) = None
   \<and> get_dep_statuses (mk_ti None (Some (naive_date 2022 1 1))
                         (Some (mk_dag (Some (utc_date 2021 1 1))))) () (utc_date 2022 6 1)
       = ([], None)
   \<and> is_met (get_dep_statuses (mk_ti None (Some (naive_date 2022 1 1))
                         (Some (mk_dag (Some (utc_date 2021 1 1))))) () (utc_date 2022 6 1))
       = Inr True"
proof -
  have h: "logical_date (dag_run (mk_ti None (Some (naive_date 2022 1 1))
                                    (Some (mk_dag (Some (utc_date 2021 1 1)))))) = None"
    by (simp only: mk_ti_fields)
  show ?thesis
    using h no_logical_date_no_status [OF h, of "()" "utc_date 2022 6 1"] by blast
qed

text \<open>
  Claim C3, as the code has it. On a run with a logical date, a call that returns
  normally yields one failing status for each of the three checks whose condition holds,
  in the order future date, task end date, DAG end date, with no check cut short by
  another; the number of statuses is the number of conditions that hold. No call yields
  more than three statuses, and every status yielded is a failing one. A call that ends
  with an exception can yield fewer statuses than conditions hold: when the task end date
  is naive and the logical date aware, the future-date and DAG end-date conditions can
  both hold while only the future-date status is yielded.
\<close>

theorem one_status_per_condition:
  assumes "logical_date (dag_run ti) = Some L"
  shows "length (fst (get_dep_statuses ti ctx C)) \<le> 3
         \<and> list_all (\<lambda>s. \<not> passed s) (fst (get_dep_statuses ti ctx C))
         \<and> (snd (get_dep_statuses ti ctx C) = None \<longrightarrow>
              fst (get_dep_statuses ti ctx C)
                = future_part L C @ task_end_part ti L @ dag_end_part ti L
              \<and> length (fst (get_dep_statuses ti ctx C))
                = (if in_future L C then 1 else 0)
                  + (if task_end_exceeded ti L then 1 else 0)
                  + (if dag_end_exceeded ti L then 1 else 0))"
proof -
  have a: "length (fst (get_dep_statuses ti ctx C)) \<le> 3"
    unfolding run_normal_form[OF assms] by (simp add: part_lengths)
  have b: "list_all (\<lambda>s. \<not> passed s) (fst (get_dep_statuses ti ctx C))"
    unfolding run_normal_form[OF assms] list_all_iff using parts_failing by auto
  have c: "fst (get_dep_statuses ti ctx C)
             = future_part L C @ task_end_part ti L @ dag_end_part ti L"
    if "snd (get_dep_statuses ti ctx C) = None"
    using that unfolding run_normal_form[OF assms] by (simp split: if_splits)
  have d: "length (future_part L C @ task_end_part ti L @ dag_end_part ti L)
             = (if in_future L C then 1 else 0)
               + (if task_end_exceeded ti L then 1 else 0)
               + (if dag_end_exceeded ti L then 1 else 0)"
    by (simp add: part_lengths)
  show ?thesis using a b c d by presburger
qed

theorem one_status_per_condition_witness:
  "logical_date (dag_run ti_all_late) = Some (utc_date 2023 1 1)
   \<and> snd (get_dep_statuses ti_all_late () (utc_date 2022 6 1)) = None
   \<and> in_future (utc_date 2023 1 1) (utc_date 2022 6 1)
   \<and> task_end_exceeded ti_all_late (utc_date 2023 1 1)
   \<and> dag_end_exceeded ti_all_late (utc_date 2023 1 1)
   \<and> length (fst (get_dep_statuses ti_all_late () (utc_date 2022 6 1))) = 3"
proof -
  note h = ti_all_late_fields(1)
  have n: "snd (get_dep_statuses ti_all_late () (utc_date 2022 6 1)) = None"
    unfolding run_normal_form[OF h]
    by (simp add: aware_values task_end_mismatch_def dag_end_mismatch_def ti_all_late_fields)
  have f: "in_future (utc_date 2023 1 1) (utc_date 2022 6 1)"
    by (simp only: in_future_def dt_gt_values)
  have t: "task_end_exceeded ti_all_late (utc_date 2023 1 1)"
    by (simp only: task_end_exceeded_def ti_all_late_fields option.case dt_gt_values)
  have d: "dag_end_exceeded ti_all_late (utc_date 2023 1 1)"
    by (simp only: dag_end_exceeded_def ti_all_late_fields option.case dt_gt_values)
  from one_status_per_condition [OF h, of "()" "utc_date 2022 6 1"] n
  have "length (fst (get_dep_statuses ti_all_late () (utc_date 2022 6 1)))
          = (if in_future (utc_date 2023 1 1) (utc_date 2022 6 1) then 1 else 0)
            + (if task_end_exceeded ti_all_late (utc_date 2023 1 1) then 1 else 0)
            + (if dag_end_exceeded ti_all_late (utc_date 2023 1 1) then 1 else 0)"
    by blast
  then show ?thesis using h n f t d by simp
qed

theorem one_status_per_condition_counterexample:
  "logical_date (dag_run ti_naive_task_end) = Some (utc_date 2023 1 1)
   \<and> in_future (utc_date 2023 1 1) (utc_date 2022 6 1)
   \<and> dag_end_exceeded ti_naive_task_end (utc_date 2023 1 1)
   \<and> length (fst (get_dep_statuses ti_naive_task_end () (utc_date 2022 6 1))) = 1"
proof -
  have f: "in_future (utc_date 2023 1 1) (utc_date 2022 6 1)"
    by (simp only: in_future_def dt_gt_values)
  have d: "dag_end_exceeded ti_naive_task_end (utc_date 2023 1 1)"
    by (simp only: dag_end_exceeded_def ti_naive_task_end_fields option.case dt_gt_values)
  show ?thesis
    unfolding run_ti_naive_task_end using ti_naive_task_end_fields(1) f d by simp
qed

text \<open>
  Claim C4, as the code has it. On a run with logical date \<open>L\<close>, comparable with the clock reading, the
  failing status of the task end-date check, citing \<open>L\<close> and the end date, is yielded
  exactly when the task has an end date and \<open>L\<close> is strictly greater than it. When \<open>L\<close>
  cannot be compared with the clock reading the call ends before the task is looked at:
  a naive logical date later than a naive task end date yields no status.
\<close>

theorem task_end_status_iff:
  assumes "logical_date (dag_run ti) = Some L" and "\<not> naive_vs_aware L C"
  shows "(\<exists>ed. end_date (task ti) = Some ed
             \<and> \<lparr>passed = False,
                 reason = ''The logical date is '' @ isoformat L
                          @ '' but this is after the task's end date '' @ isoformat ed
                          @ ''.''\<rparr> \<in> set (fst (get_dep_statuses ti ctx C)))
         = (\<exists>ed. end_date (task ti) = Some ed \<and> dt_gt L ed = Inr True)"
proof -
  have r: "\<And>ed. ''The logical date is '' @ isoformat L
                  @ '' but this is after the task's end date '' @ isoformat ed @ ''.''
                = task_end_reason L ed"
    by (simp add: task_end_reason_def)
  show ?thesis
    unfolding r run_normal_form[OF assms(1)] using assms(2)
    by (auto simp: in_parts reasons_distinct task_end_mismatch_def naive_vs_aware_dt_gt)
qed

theorem task_end_status_iff_witness:
  "logical_date (dag_run ti_all_late) = Some (utc_date 2023 1 1)
   \<and> \<not> naive_vs_aware (utc_date 2023 1 1) (utc_date 2023 6 1)
   \<and> end_date (task ti_all_late) = Some (utc_date 2022 1 1)
   \<and> dt_gt (utc_date 2023 1 1) (utc_date 2022 1 1) = Inr True
   \<and> (\<exists>ed. end_date (task ti_all_late) = Some ed
          \<and> \<lparr>passed = False,
              reason = ''The logical date is '' @ isoformat (utc_date 2023 1 1)
                       @ '' but this is after the task's end date '' @ isoformat ed
                       @ ''.''\<rparr> \<in> set (fst (get_dep_statuses ti_all_late () (utc_date 2023 6 1))))"
proof -
  note h = ti_all_late_fields(1)
  note a = aware_values(1)[of 2023 1 1 2023 6 1]
  have e: "\<exists>ed. end_date (task ti_all_late) = Some ed \<and> dt_gt (utc_date 2023 1 1) ed = Inr True"
    using ti_all_late_fields(2) dt_gt_values(3) by blast
  show ?thesis
    using task_end_status_iff [OF h a, of "()"] e h a ti_all_late_fields(2) dt_gt_values(3)
    by blast
qed

theorem task_end_status_iff_counterexample:
  "logical_date (dag_run ti_naive_logical_date) = Some (naive_date 2023 1 1)
   \<and> end_date (task ti_naive_logical_date) = Some (naive_date 2022 1 1)
   \<and> dt_gt (naive_date 2023 1 1) (naive_date 2022 1 1) = Inr True
   \<and> fst (get_dep_statuses ti_naive_logical_date () (utc_date 2023 6 1)) = []"
  unfolding run_ti_naive_logical_date
  using ti_naive_logical_date_fields(1,2) dt_gt_values(6) by simp

text \<open>
  Claim C5, as the code has it. On a run with logical date \<open>L\<close>, comparable with the clock reading and with
  the task's end date when there is one, the failing status of the DAG end-date check,
  citing \<open>L\<close> and the end date, is yielded exactly when the task has a DAG, the DAG has
  an end date, and \<open>L\<close> is strictly greater than it. When an earlier comparison is
  refused the call ends before the DAG is looked at: with a naive task end date, an aware
  logical date later than the DAG's end date yields no DAG end-date status.
\<close>

theorem dag_end_status_iff:
  assumes "logical_date (dag_run ti) = Some L" and "\<not> naive_vs_aware L C"
    and "\<not> task_end_mismatch ti L"
  shows "(\<exists>d ed. dag (task ti) = Some d \<and> dag_end_date d = Some ed
             \<and> \<lparr>passed = False,
                 reason = ''The logical date is '' @ isoformat L
                          @ '' but this is after the task's DAG's end date '' @ isoformat ed
                          @ ''.''\<rparr> \<in> set (fst (get_dep_statuses ti ctx C)))
         = (\<exists>d ed. dag (task ti) = Some d \<and> dag_end_date d = Some ed \<and> dt_gt L ed = Inr True)"
proof -
  have r: "\<And>ed. ''The logical date is '' @ isoformat L
                  @ '' but this is after the task's DAG's end date '' @ isoformat ed @ ''.''
                = dag_end_reason L ed"
    by (simp add: dag_end_reason_def)
  have "(\<exists>ed. workflow_end_date ti = Some ed
             \<and> \<lparr>passed = False, reason = dag_end_reason L ed\<rparr>
                 \<in> set (fst (get_dep_statuses ti ctx C)))
         = (\<exists>ed. workflow_end_date ti = Some ed \<and> dt_gt L ed = Inr True)"
    unfolding run_normal_form[OF assms(1)] using assms(2,3)
    by (auto simp: in_parts reasons_distinct dag_end_mismatch_def naive_vs_aware_dt_gt)
  then show ?thesis unfolding r using workflow_end_date_Some[of ti] by metis
qed

theorem dag_end_status_iff_witness:
  "logical_date (dag_run ti_all_late) = Some (utc_date 2023 1 1)
   \<and> \<not> naive_vs_aware (utc_date 2023 1 1) (utc_date 2023 6 1)
   \<and> \<not> task_end_mismatch ti_all_late (utc_date 2023 1 1)
   \<and> dag (task ti_all_late) = Some (mk_dag (Some (utc_date 2021 1 1)))
   \<and> dag_end_date (mk_dag (Some (utc_date 2021 1 1))) = Some (utc_date 2021 1 1)
   \<and> dt_gt (utc_date 2023 1 1) (utc_date 2021 1 1) = Inr True
   \<and> (\<exists>d ed. dag (task ti_all_late) = Some d \<and> dag_end_date d = Some ed
          \<and> \<lparr>passed = False,
              reason = ''The logical date is '' @ isoformat (utc_date 2023 1 1)
                       @ '' but this is after the task's DAG's end date '' @ isoformat ed
                       @ ''.''\<rparr> \<in> set (fst (get_dep_statuses ti_all_late () (utc_date 2023 6 1))))"
proof -
  note h = ti_all_late_fields(1)
  note a = aware_values(1)[of 2023 1 1 2023 6 1]
  have m: "\<not> task_end_mismatch ti_all_late (utc_date 2023 1 1)"
    by (simp add: task_end_mismatch_def ti_all_late_fields aware_values)
  note d1 = ti_all_late_fields(3)
  note d2 = ti_all_late_fields(4)[of "Some (utc_date 2021 1 1)"]
  have e: "\<exists>d ed. dag (task ti_all_late) = Some d \<and> dag_end_date d = Some ed
             \<and> dt_gt (utc_date 2023 1 1) ed = Inr True"
    using d1 d2 dt_gt_values(4) by blast
  show ?thesis
    using dag_end_status_iff [OF h a m, of "()"] e h a m d1 d2 dt_gt_values(4)
    by blast
qed

theorem dag_end_status_iff_counterexample:
  "logical_date (dag_run ti_naive_task_end) = Some (utc_date 2023 1 1)
   \<and> dag (task ti_naive_task_end) = Some (mk_dag (Some (utc_date 2021 1 1)))
   \<and> dag_end_date (mk_dag (Some (utc_date 2021 1 1))) = Some (utc_date 2021 1 1)
   \<and> dt_gt (utc_date 2023 1 1) (utc_date 2021 1 1) = Inr True
   \<and> \<lparr>passed = False,
       reason = ''The logical date is 2023-01-01T00:00:00+00:00 but this is after the task's DAG's end date 2021-01-01T00:00:00+00:00.''\<rparr>
       \<notin> set (fst (get_dep_statuses ti_naive_task_end () (utc_date 2022 6 1)))"
  unfolding run_ti_naive_task_end
  using ti_naive_task_end_fields(1,4) ti_all_late_fields(4)[of "Some (utc_date 2021 1 1)"]
    dt_gt_values(4)
  by simp

text \<open>
  Claim C6. With logical date 2023-01-01T00:00:00Z, task end date 2022-01-01T00:00:00Z,
  no DAG end date, and the clock at 2023-06-01T00:00:00Z, one call yields exactly one
  failing status, the one of the task end-date check, and returns normally; the
  future-date status is not yielded.
\<close>

theorem scenario_task_end_only:
  assumes "logical_date (dag_run ti) = Some (utc_date 2023 1 1)"
    and "end_date (task ti) = Some (utc_date 2022 1 1)"
    and "workflow_end_date ti = None"
  shows "get_dep_statuses ti ctx (utc_date 2023 6 1)
           = ([\<lparr>passed = False,
                reason = ''The logical date is 2023-01-01T00:00:00+00:00 but this is after the task's end date 2022-01-01T00:00:00+00:00.''\<rparr>],
              None)
         \<and> \<lparr>passed = False,
             reason = ''Logical date 2023-01-01T00:00:00+00:00 is in the future (the current date is 2023-06-01T00:00:00+00:00).''\<rparr>
           \<notin> set (fst (get_dep_statuses ti ctx (utc_date 2023 6 1)))"
proof -
  have f: "future_part (utc_date 2023 1 1) (utc_date 2023 6 1) = []"
    unfolding future_part_def in_future_def dt_gt_values by simp
  have t: "task_end_part ti (utc_date 2023 1 1)
             = [\<lparr>passed = False, reason = task_end_reason (utc_date 2023 1 1) (utc_date 2022 1 1)\<rparr>]"
    unfolding task_end_part_def assms option.case dt_gt_values by simp
  have d: "dag_end_part ti (utc_date 2023 1 1) = []"
    unfolding dag_end_part_def assms option.case by simp
  have m: "\<not> task_end_mismatch ti (utc_date 2023 1 1)"
          "\<not> dag_end_mismatch ti (utc_date 2023 1 1)"
    unfolding task_end_mismatch_def dag_end_mismatch_def assms option.case
    using aware_values(1) by simp_all
  have s: "task_end_reason (utc_date 2023 1 1) (utc_date 2022 1 1)
             = ''The logical date is 2023-01-01T00:00:00+00:00 but this is after the task's end date 2022-01-01T00:00:00+00:00.''"
    unfolding task_end_reason_def iso_values by simp
  have "get_dep_statuses ti ctx (utc_date 2023 6 1)
          = ([\<lparr>passed = False, reason = task_end_reason (utc_date 2023 1 1) (utc_date 2022 1 1)\<rparr>],
             None)"
    unfolding run_normal_form[OF assms(1)] f t d using m aware_values(1) by simp
  then show ?thesis unfolding s by simp
qed

theorem scenario_task_end_only_witness:
  "logical_date (dag_run (mk_ti (Some (utc_date 2023 1 1)) (Some (utc_date 2022 1 1))
                            (Some (mk_dag None)))) = Some (utc_date 2023 1 1)
   \<and> end_date (task (mk_ti (Some (utc_date 2023 1 1)) (Some (utc_date 2022 1 1))
                            (Some (mk_dag None)))) = Some (utc_date 2022 1 1)
   \<and> workflow_end_date (mk_ti (Some (utc_date 2023 1 1)) (Some (utc_date 2022 1 1))
                            (Some (mk_dag None))) = None
   \<and> get_dep_statuses (mk_ti (Some (utc_date 2023 1 1)) (Some (utc_date 2022 1 1))
                            (Some (mk_dag None))) () (utc_date 2023 6 1)
       = ([\<lparr>passed = False,
            reason = ''The logical date is 2023-01-01T00:00:00+00:00 but this is after the task's end date 2022-01-01T00:00:00+00:00.''\<rparr>],
          None)"
proof -
  note h1 = mk_ti_fields(1)[of "Some (utc_date 2023 1 1)" "Some (utc_date 2022 1 1)"
                              "Some (mk_dag None)"]
  note h2 = mk_ti_fields(2)[of "Some (utc_date 2023 1 1)" "Some (utc_date 2022 1 1)"
                              "Some (mk_dag None)"]
  note h3 = mk_ti_fields(5)[of "Some (utc_date 2023 1 1)" "Some (utc_date 2022 1 1)" None]
  show ?thesis
    using scenario_task_end_only [OF h1 h2 h3, of "()"] h1 h2 h3 by blast
qed

text \<open>
  Claim C7, as the code has it. Every status yielded is a failing one, and its reason is
  one of three texts: \<^verbatim>\<open>Logical date <L> is in the future (the current date is <C>).\<close>
  when \<open>L > C\<close>; \<^verbatim>\<open>The logical date is <L> but this is after the task's end date <E>.\<close>
  for the end date \<open>E\<close> of the task; and
  \<^verbatim>\<open>The logical date is <L> but this is after the task's DAG's end date <E>.\<close> for the
  end date \<open>E\<close> of the DAG, each timestamp rendered by \<^verbatim>\<open>isoformat()\<close>. These are
  not the sentences the specification quotes: at the input where all three checks fire,
  none of the three reasons contains the specification's sentence.
\<close>

theorem reason_wording:
  assumes "s \<in> set (fst (get_dep_statuses ti ctx C))"
  shows "\<exists>L. logical_date (dag_run ti) = Some L \<and> \<not> passed s
           \<and> (reason s = ''Logical date '' @ isoformat L
                           @ '' is in the future (the current date is '' @ isoformat C @ '').''
              \<or> (\<exists>ed. end_date (task ti) = Some ed
                     \<and> reason s = ''The logical date is '' @ isoformat L
                           @ '' but this is after the task's end date '' @ isoformat ed @ ''.'')
              \<or> (\<exists>d ed. dag (task ti) = Some d \<and> dag_end_date d = Some ed
                     \<and> reason s = ''The logical date is '' @ isoformat L
                           @ '' but this is after the task's DAG's end date '' @ isoformat ed
                           @ ''.''))"
proof (cases "logical_date (dag_run ti)")
  case None
  then have "fst (get_dep_statuses ti ctx C) = []"
    by (simp add: get_dep_statuses_def gen_empty_def)
  with assms show ?thesis by simp
next
  case (Some L)
  have r: "''Logical date '' @ isoformat L @ '' is in the future (the current date is ''
             @ isoformat C @ '').'' = future_reason L C"
          "\<And>ed. ''The logical date is '' @ isoformat L
                  @ '' but this is after the task's end date '' @ isoformat ed @ ''.''
                = task_end_reason L ed"
          "\<And>ed. ''The logical date is '' @ isoformat L
                  @ '' but this is after the task's DAG's end date '' @ isoformat ed @ ''.''
                = dag_end_reason L ed"
    by (simp_all add: future_reason_def task_end_reason_def dag_end_reason_def)
  from assms have "s \<in> set (future_part L C) \<or> s \<in> set (task_end_part ti L)
                     \<or> s \<in> set (dag_end_part ti L)"
    unfolding run_normal_form[OF Some] by (auto split: if_splits)
  then have "\<not> passed s
           \<and> (reason s = future_reason L C
              \<or> (\<exists>ed. end_date (task ti) = Some ed \<and> reason s = task_end_reason L ed)
              \<or> (\<exists>d ed. dag (task ti) = Some d \<and> dag_end_date d = Some ed
                     \<and> reason s = dag_end_reason L ed))"
    unfolding in_parts workflow_end_date_Some[symmetric] by auto
  with Some have "logical_date (dag_run ti) = Some L \<and> \<not> passed s
           \<and> (reason s = ''Logical date '' @ isoformat L
                           @ '' is in the future (the current date is '' @ isoformat C @ '').''
              \<or> (\<exists>ed. end_date (task ti) = Some ed
                     \<and> reason s = ''The logical date is '' @ isoformat L
                           @ '' but this is after the task's end date '' @ isoformat ed @ ''.'')
              \<or> (\<exists>d ed. dag (task ti) = Some d \<and> dag_end_date d = Some ed
                     \<and> reason s = ''The logical date is '' @ isoformat L
                           @ '' but this is after the task's DAG's end date '' @ isoformat ed
                           @ ''.''))"
    unfolding r by blast
  then show ?thesis by (rule exI[where x = L])
qed

theorem reason_wording_witness:
  "\<lparr>passed = False,
     reason = ''The logical date is 2023-01-01T00:00:00+00:00 but this is after the task's DAG's end date 2021-01-01T00:00:00+00:00.''\<rparr>
     \<in> set (fst (get_dep_statuses ti_all_late () (utc_date 2022 6 1)))
   \<and> (\<exists>L. logical_date (dag_run ti_all_late) = Some L
        \<and> (''The logical date is 2023-01-01T00:00:00+00:00 but this is after the task's DAG's end date 2021-01-01T00:00:00+00:00.''
               = ''Logical date '' @ isoformat L
                   @ '' is in the future (the current date is '' @ isoformat (utc_date 2022 6 1)
                   @ '').''
           \<or> (\<exists>ed. end_date (task ti_all_late) = Some ed
                  \<and> ''The logical date is 2023-01-01T00:00:00+00:00 but this is after the task's DAG's end date 2021-01-01T00:00:00+00:00.''
                     = ''The logical date is '' @ isoformat L
                        @ '' but this is after the task's end date '' @ isoformat ed @ ''.'')
           \<or> (\<exists>d ed. dag (task ti_all_late) = Some d \<and> dag_end_date d = Some ed
                  \<and> ''The logical date is 2023-01-01T00:00:00+00:00 but this is after the task's DAG's end date 2021-01-01T00:00:00+00:00.''
                     = ''The logical date is '' @ isoformat L
                        @ '' but this is after the task's DAG's end date '' @ isoformat ed
                        @ ''.'')))"
proof -
  have s: "dag_end_reason (utc_date 2023 1 1) (utc_date 2021 1 1)
             = ''The logical date is 2023-01-01T00:00:00+00:00 but this is after the task's DAG's end date 2021-01-01T00:00:00+00:00.''"
    unfolding dag_end_reason_def iso_values by simp
  have "\<lparr>passed = False, reason = dag_end_reason (utc_date 2023 1 1) (utc_date 2021 1 1)\<rparr>
          \<in> set (dag_end_part ti_all_late (utc_date 2023 1 1))"
    unfolding dag_end_part_def ti_all_late_fields option.case dt_gt_values by simp
  then have m: "\<lparr>passed = False,
       reason = ''The logical date is 2023-01-01T00:00:00+00:00 but this is after the task's DAG's end date 2021-01-01T00:00:00+00:00.''\<rparr>
       \<in> set (fst (get_dep_statuses ti_all_late () (utc_date 2022 6 1)))"
    unfolding s run_normal_form[OF ti_all_late_fields(1)]
    by (simp add: aware_values task_end_mismatch_def dag_end_mismatch_def ti_all_late_fields)
  from reason_wording [OF m] m show ?thesis by simp
qed

theorem reason_wording_counterexample:
  "map (spec_wording_matches (utc_date 2022 6 1))
     (map reason (fst (get_dep_statuses ti_all_late () (utc_date 2022 6 1))))
   = [False, False, False]"
  by code_simp

text \<open>
  Claim C8. Two calls that agree on the logical date, the task end date, the DAG end
  date and the clock reading produce the same statuses, in the same order and with the
  same reasons, and end the same way; nothing else about the task instance, and nothing
  in the dependency context, has any influence.
\<close>

theorem same_inputs_same_statuses:
  assumes "logical_date (dag_run ti) = logical_date (dag_run ti')"
    and "end_date (task ti) = end_date (task ti')"
    and "workflow_end_date ti = workflow_end_date ti'"
  shows "get_dep_statuses ti ctx C = get_dep_statuses ti' ctx' C"
proof (cases "logical_date (dag_run ti)")
  case None
  with assms(1) show ?thesis
    by (simp add: get_dep_statuses_def)
next
  case (Some L)
  with assms(1) have S': "logical_date (dag_run ti') = Some L" by simp
  have "task_end_mismatch ti L = task_end_mismatch ti' L"
       "dag_end_mismatch ti L = dag_end_mismatch ti' L"
       "task_end_part ti L = task_end_part ti' L"
       "dag_end_part ti L = dag_end_part ti' L"
    by (simp_all add: task_end_mismatch_def dag_end_mismatch_def task_end_part_def
          dag_end_part_def assms(2,3))
  then show ?thesis
    unfolding run_normal_form[OF Some] run_normal_form[OF S'] by simp
qed

theorem same_inputs_same_statuses_witness:
  "logical_date (dag_run (mk_ti (Some (utc_date 2023 1 1)) (Some (utc_date 2022 1 1)) None))
     = logical_date (dag_run (mk_ti (Some (utc_date 2023 1 1)) (Some (utc_date 2022 1 1))
                                (Some (mk_dag None))))
   \<and> end_date (task (mk_ti (Some (utc_date 2023 1 1)) (Some (utc_date 2022 1 1)) None))
     = end_date (task (mk_ti (Some (utc_date 2023 1 1)) (Some (utc_date 2022 1 1))
                                (Some (mk_dag None))))
   \<and> workflow_end_date (mk_ti (Some (utc_date 2023 1 1)) (Some (utc_date 2022 1 1)) None)
     = workflow_end_date (mk_ti (Some (utc_date 2023 1 1)) (Some (utc_date 2022 1 1))
                                (Some (mk_dag None)))
   \<and> get_dep_statuses (mk_ti (Some (utc_date 2023 1 1)) (Some (utc_date 2022 1 1)) None)
        () (utc_date 2022 6 1)
     = get_dep_statuses (mk_ti (Some (utc_date 2023 1 1)) (Some (utc_date 2022 1 1))
                                (Some (mk_dag None)))
        True (utc_date 2022 6 1)"
proof -
  have h1: "logical_date (dag_run (mk_ti (Some (utc_date 2023 1 1)) (Some (utc_date 2022 1 1)) None))
     = logical_date (dag_run (mk_ti (Some (utc_date 2023 1 1)) (Some (utc_date 2022 1 1))
                                (Some (mk_dag None))))"
    by (simp only: mk_ti_fields)
  have h2: "end_date (task (mk_ti (Some (utc_date 2023 1 1)) (Some (utc_date 2022 1 1)) None))
     = end_date (task (mk_ti (Some (utc_date 2023 1 1)) (Some (utc_date 2022 1 1))
                                (Some (mk_dag None))))"
    by (simp only: mk_ti_fields)
  have h3: "workflow_end_date (mk_ti (Some (utc_date 2023 1 1)) (Some (utc_date 2022 1 1)) None)
     = workflow_end_date (mk_ti (Some (utc_date 2023 1 1)) (Some (utc_date 2022 1 1))
                                (Some (mk_dag None)))"
    by (simp only: mk_ti_fields)
  show ?thesis
    using same_inputs_same_statuses [OF h1 h2 h3, of "()" "utc_date 2022 6 1" True] h1 h2 h3
    by blast
qed

text \<open>
  Claim C9. On a run with logical date \<open>L\<close>, when \<open>L\<close> and the clock reading, or \<open>L\<close> and
  the end date of the task, or \<open>L\<close> and the end date of the DAG, are one naive and one
  aware, the call ends with \<^verbatim>\<open>TypeError\<close>. What was yielded before the exception are
  the statuses of the checks that precede the first such comparison and whose condition
  holds; the refused comparison itself yields no status.
\<close>

theorem naive_aware_comparison_raises:
  assumes "logical_date (dag_run ti) = Some L"
    and "naive_vs_aware L C
         \<or> (\<exists>ed. end_date (task ti) = Some ed \<and> naive_vs_aware L ed)
         \<or> (\<exists>d ed. dag (task ti) = Some d \<and> dag_end_date d = Some ed \<and> naive_vs_aware L ed)"
  shows "snd (get_dep_statuses ti ctx C) = Some TypeError
         \<and> fst (get_dep_statuses ti ctx C)
             = (if naive_vs_aware L C then []
                else if task_end_mismatch ti L then future_part L C
                else future_part L C @ task_end_part ti L)"
proof -
  from assms(2) have "naive_vs_aware L C \<or> task_end_mismatch ti L \<or> dag_end_mismatch ti L"
    by (auto simp: task_end_mismatch_def dag_end_mismatch_def workflow_end_date_def)
  then show ?thesis
    unfolding run_normal_form[OF assms(1)] by auto
qed

theorem naive_aware_comparison_raises_witness:
  "logical_date (dag_run ti_naive_task_end) = Some (utc_date 2023 1 1)
   \<and> end_date (task ti_naive_task_end) = Some (naive_date 2022 1 1)
   \<and> naive_vs_aware (utc_date 2023 1 1) (naive_date 2022 1 1)
   \<and> get_dep_statuses ti_naive_task_end () (utc_date 2022 6 1)
       = ([\<lparr>passed = False,
            reason = ''Logical date 2023-01-01T00:00:00+00:00 is in the future (the current date is 2022-06-01T00:00:00+00:00).''\<rparr>],
          Some TypeError)"
proof -
  note h = ti_naive_task_end_fields(1)
  note e = ti_naive_task_end_fields(2)
  note n = aware_values(2)[of 2023 1 1 2022 1 1]
  have m: "naive_vs_aware (utc_date 2023 1 1) (utc_date 2022 6 1)
         \<or> (\<exists>ed. end_date (task ti_naive_task_end) = Some ed
                \<and> naive_vs_aware (utc_date 2023 1 1) ed)
         \<or> (\<exists>d ed. dag (task ti_naive_task_end) = Some d \<and> dag_end_date d = Some ed
                \<and> naive_vs_aware (utc_date 2023 1 1) ed)"
    using e n by blast
  have t: "task_end_mismatch ti_naive_task_end (utc_date 2023 1 1)"
    unfolding task_end_mismatch_def e option.case by (rule n)
  have f: "future_part (utc_date 2023 1 1) (utc_date 2022 6 1)
             = [\<lparr>passed = False,
            reason = ''Logical date 2023-01-01T00:00:00+00:00 is in the future (the current date is 2022-06-01T00:00:00+00:00).''\<rparr>]"
    unfolding future_part_def in_future_def dt_gt_values future_reason_def iso_values by simp
  from naive_aware_comparison_raises [OF h m, of "()"] t aware_values(1)[of 2023 1 1 2022 6 1]
  have "get_dep_statuses ti_naive_task_end () (utc_date 2022 6 1)
          = (future_part (utc_date 2023 1 1) (utc_date 2022 6 1), Some TypeError)"
    by (simp add: prod_eq_iff)
  then show ?thesis unfolding f using h e n by blast
qed

text \<open>
  Claim C10, as the code has it. When the task has no DAG, the third check is skipped and
  is never the cause of an exception: a run without a logical date yields nothing, and
  otherwise the call behaves as the first two checks alone. It yields at most the
  future-date and the task end-date statuses, and it returns normally unless the logical
  date cannot be compared with the clock reading or with the end date of the task; then
  it ends with \<^verbatim>\<open>TypeError\<close>, as it does for a naive logical date read against
  the UTC clock.
\<close>

theorem no_dag_skips_dag_check:
  assumes "dag (task ti) = None"
  shows "(case logical_date (dag_run ti) of
            None \<Rightarrow> get_dep_statuses ti ctx C = ([], None)
          | Some L \<Rightarrow>
              get_dep_statuses ti ctx C
                = (if naive_vs_aware L C then ([], Some TypeError)
                   else if task_end_mismatch ti L then (future_part L C, Some TypeError)
                   else (future_part L C @ task_end_part ti L, None)))
         \<and> length (fst (get_dep_statuses ti ctx C)) \<le> 2"
proof (cases "logical_date (dag_run ti)")
  case None
  then show ?thesis by (simp add: get_dep_statuses_def gen_empty_def)
next
  case (Some L)
  from assms have w: "workflow_end_date ti = None"
    by (simp add: workflow_end_date_def)
  have d: "\<not> dag_end_mismatch ti L" "dag_end_part ti L = []"
    by (simp_all add: dag_end_mismatch_def dag_end_part_def w)
  show ?thesis
    unfolding run_normal_form[OF Some] using Some d by (simp add: part_lengths)
qed

theorem no_dag_skips_dag_check_witness:
  "dag (task (mk_ti (Some (utc_date 2023 1 1)) (Some (utc_date 2022 1 1)) None)) = None
   \<and> get_dep_statuses (mk_ti (Some (utc_date 2023 1 1)) (Some (utc_date 2022 1 1)) None)
        () (utc_date 2022 6 1)
     = ([\<lparr>passed = False,
          reason = ''Logical date 2023-01-01T00:00:00+00:00 is in the future (the current date is 2022-06-01T00:00:00+00:00).''\<rparr>,
         \<lparr>passed = False,
          reason = ''The logical date is 2023-01-01T00:00:00+00:00 but this is after the task's end date 2022-01-01T00:00:00+00:00.''\<rparr>],
        None)"
proof -
  note h = mk_ti_fields(3)[of "Some (utc_date 2023 1 1)" "Some (utc_date 2022 1 1)" None]
  note l = mk_ti_fields(1)[of "Some (utc_date 2023 1 1)" "Some (utc_date 2022 1 1)" None]
  note e = mk_ti_fields(2)[of "Some (utc_date 2023 1 1)" "Some (utc_date 2022 1 1)" None]
  have m: "\<not> task_end_mismatch (mk_ti (Some (utc_date 2023 1 1)) (Some (utc_date 2022 1 1)) None)
               (utc_date 2023 1 1)"
    unfolding task_end_mismatch_def e option.case by (rule aware_values(1))
  have f: "future_part (utc_date 2023 1 1) (utc_date 2022 6 1)
             = [\<lparr>passed = False,
            reason = ''Logical date 2023-01-01T00:00:00+00:00 is in the future (the current date is 2022-06-01T00:00:00+00:00).''\<rparr>]"
    unfolding future_part_def in_future_def dt_gt_values future_reason_def iso_values by simp
  have t: "task_end_part (mk_ti (Some (utc_date 2023 1 1)) (Some (utc_date 2022 1 1)) None)
               (utc_date 2023 1 1)
             = [\<lparr>passed = False,
          reason = ''The logical date is 2023-01-01T00:00:00+00:00 but this is after the task's end date 2022-01-01T00:00:00+00:00.''\<rparr>]"
    unfolding task_end_part_def e option.case dt_gt_values task_end_reason_def iso_values
    by simp
  from no_dag_skips_dag_check [OF h, of "()" "utc_date 2022 6 1"]
  have "get_dep_statuses (mk_ti (Some (utc_date 2023 1 1)) (Some (utc_date 2022 1 1)) None)
          () (utc_date 2022 6 1)
        = (future_part (utc_date 2023 1 1) (utc_date 2022 6 1)
           @ task_end_part (mk_ti (Some (utc_date 2023 1 1)) (Some (utc_date 2022 1 1)) None)
               (utc_date 2023 1 1), None)"
    unfolding l option.case using m aware_values(1)[of 2023 1 1 2022 6 1] by simp
  then show ?thesis unfolding f t using h by simp
qed

theorem no_dag_skips_dag_check_counterexample:
  "dag (task ti_naive_logical_date) = None
   \<and> logical_date (dag_run ti_naive_logical_date) = Some (naive_date 2023 1 1)
   \<and> snd (get_dep_statuses ti_naive_logical_date () (utc_date 2023 6 1)) = Some TypeError"
  unfolding run_ti_naive_logical_date
  using ti_naive_logical_date_fields(1,3) by simp

end
